theory Spec2Isabelle
  imports Main "HOL-Library.Word" "HOL-Library.Sublist"
begin

section \<open>Data of the backend (server.go)\<close>

text \<open>
  A Go byte is an 8-bit word; a \<^verbatim>\<open>[]byte\<close> and a Go \<^verbatim>\<open>string\<close> are both
  sequences of bytes, so the conversion \<^verbatim>\<open>string(tpl)\<close> is the identity on the
  byte sequence. A Go \<^verbatim>\<open>error\<close> is represented by the text its \<^verbatim>\<open>Error()\<close>
  method returns, which is what the \<^verbatim>\<open>%s\<close> verb of \<^verbatim>\<open>log.Printf\<close> prints.
\<close>

type_synonym byte = "8 word"
type_synonym bytes = "byte list"
type_synonym error = string

text \<open>
  The effects a request handler can have, in the order they happen:
  \<^verbatim>\<open>time.Sleep(d)\<close>, the allocation \<^verbatim>\<open>make([]byte, n)\<close>, a call
  \<^verbatim>\<open>w.Write(p)\<close> together with the error it returned, and a line given to
  \<^verbatim>\<open>log.Printf\<close>.
\<close>

datatype event =
    Sleep int
  | Make nat
  | Write bytes "error option"
  | Printf string

text \<open>
  The state threaded through a handler: the state of the response writer (whatever the
  connection is) and the effects so far, oldest first.
\<close>

record 'w state =
  conn :: 'w
  trace :: "event list"

text \<open>
  An \<^verbatim>\<open>io.Writer\<close>: given the writer's state and a buffer, the new state and the error
  returned (\<open>None\<close> for \<^verbatim>\<open>nil\<close>).
\<close>

type_synonym 'w writer = "'w \<Rightarrow> bytes \<Rightarrow> 'w \<times> error option"

record request =
  Method :: string
  URLPath :: string
  Body :: bytes

section \<open>Library operations used by the handler\<close>

text \<open>\<^verbatim>\<open>time.Duration\<close> counts nanoseconds.\<close>

definition Second :: int where
  "Second = 1000000000"

definition Minute :: int where
  "Minute = 60 * Second"

definition time_Sleep :: "int \<Rightarrow> 'w state \<Rightarrow> 'w state" where
  "time_Sleep d s = s\<lparr>trace := trace s @ [Sleep d]\<rparr>"

text \<open>\<^verbatim>\<open>make([]byte, n)\<close> returns a slice of \<open>n\<close> zero bytes.\<close>

definition make_bytes :: "nat \<Rightarrow> 'w state \<Rightarrow> bytes \<times> 'w state" where
  "make_bytes n s = (replicate n 0, s\<lparr>trace := trace s @ [Make n]\<rparr>)"

definition log_Printf :: "string \<Rightarrow> 'w state \<Rightarrow> 'w state" where
  "log_Printf msg s = s\<lparr>trace := trace s @ [Printf msg]\<rparr>"

text \<open>A call \<^verbatim>\<open>w.Write(p)\<close> on the response writer, recorded with its result.\<close>

definition rw_Write :: "'w writer \<Rightarrow> bytes \<Rightarrow> 'w state \<Rightarrow> 'w state \<times> error option" where
  "rw_Write wr p s =
     (case wr (conn s) p of
        (c, e) \<Rightarrow> (\<lparr>conn = c, trace = trace s @ [Write p e]\<rparr>, e))"

subsection \<open>text/template\<close>

text \<open>
  The part of Go's \<^verbatim>\<open>text/template\<close> that the handler exercises. The lexer looks
  for the left action delimiter \<^verbatim>\<open>{{\<close> with \<^verbatim>\<open>strings.Index\<close>; a text without
  it is one text item, which the parser turns into one text node (no item at all for the
  empty text). What the package does with a text that holds a delimiter is a parameter
  \<open>act\<close>, and so is the evaluation \<open>eval\<close> of an action node. Executing a
  template walks its nodes in order; a text node is written to the writer with one
  \<^verbatim>\<open>Write\<close> call, and the first error ends the walk.
\<close>

datatype 'a node = TextNode bytes | ActionNode 'a

definition leftDelim :: bytes where
  "leftDelim = [0x7B, 0x7B]"

fun Index :: "bytes \<Rightarrow> bytes \<Rightarrow> nat option" where
  "Index [] sep = (if sep = [] then Some 0 else None)"
| "Index (x # xs) sep =
     (if prefix sep (x # xs) then Some 0 else map_option Suc (Index xs sep))"

definition Parse :: "(bytes \<Rightarrow> error + 'a node list) \<Rightarrow> bytes \<Rightarrow> error + 'a node list" where
  "Parse act text =
     (case Index text leftDelim of
        None \<Rightarrow> Inr (if text = [] then [] else [TextNode text])
      | Some x \<Rightarrow> act text)"

fun walk :: "('a \<Rightarrow> error + bytes) \<Rightarrow> 'w writer \<Rightarrow> 'a node list \<Rightarrow> 'w state
               \<Rightarrow> 'w state \<times> error option" where
  "walk eval wr [] s = (s, None)"
| "walk eval wr (TextNode t # ns) s =
     (case rw_Write wr t s of
        (s', Some err) \<Rightarrow> (s', Some err)
      | (s', None) \<Rightarrow> walk eval wr ns s')"
| "walk eval wr (ActionNode a # ns) s =
     (case eval a of
        Inl err \<Rightarrow> (s, Some err)
      | Inr out \<Rightarrow>
          (case rw_Write wr out s of
             (s', Some err) \<Rightarrow> (s', Some err)
           | (s', None) \<Rightarrow> walk eval wr ns s'))"

definition Execute :: "('a \<Rightarrow> error + bytes) \<Rightarrow> 'w writer \<Rightarrow> 'a node list \<Rightarrow> 'w state
                         \<Rightarrow> 'w state \<times> error option" where
  "Execute eval wr t s = walk eval wr t s"

section \<open>The root handler\<close>

text \<open>\<^verbatim>\<open>size := 900 * 1000 * 1000\<close>\<close>

definition size_c :: nat where
  "size_c = 900 * 1000 * 1000"

text \<open>
  The handler of server.go with \<^verbatim>\<open>template.New("page").Parse\<close> as a parameter, so
  that both of its error branches are branches of the model. The request \<open>r\<close> is an
  argument, as in the source, and is never read.
\<close>

definition handler_with ::
  "(bytes \<Rightarrow> error + 'a node list) \<Rightarrow> ('a \<Rightarrow> error + bytes) \<Rightarrow> 'w writer
     \<Rightarrow> request \<Rightarrow> 'w state \<Rightarrow> 'w state" where
  "handler_with parse eval wr r s =
     (let s1 = time_Sleep (Second * 10) s;
          (tpl, s2) = make_bytes size_c s1
      in case parse tpl of
           Inl err \<Rightarrow> log_Printf (''error parsing template: '' @ err) s2
         | Inr t \<Rightarrow>
             (case Execute eval wr t s2 of
                (s3, Some err) \<Rightarrow> log_Printf (''error writing: '' @ err) s3
              | (s3, None) \<Rightarrow> s3))"

text \<open>The handler as it runs, with the parser of \<^verbatim>\<open>text/template\<close>.\<close>

definition handler ::
  "(bytes \<Rightarrow> error + 'a node list) \<Rightarrow> ('a \<Rightarrow> error + bytes) \<Rightarrow> 'w writer
     \<Rightarrow> request \<Rightarrow> 'w state \<Rightarrow> 'w state" where
  "handler act eval wr r s = handler_with (Parse act) eval wr r s"

text \<open>Observations on a trace.\<close>

fun log_lines :: "event list \<Rightarrow> string list" where
  "log_lines [] = []"
| "log_lines (Printf m # es) = m # log_lines es"
| "log_lines (e # es) = log_lines es"

fun writes :: "event list \<Rightarrow> (bytes \<times> error option) list" where
  "writes [] = []"
| "writes (Write p e # es) = (p, e) # writes es"
| "writes (e # es) = writes es"


definition effects :: "('w state \<Rightarrow> 'w state) \<Rightarrow> 'w state \<Rightarrow> event list" where
  \<comment> \<open>the events that running \<open>h\<close> from \<open>s\<close> adds to the trace\<close>
  "effects h s = drop (length (trace s)) (trace (h s))"

definition after_make :: "'w state \<Rightarrow> 'w state" where
  \<comment> \<open>the state in which the handler parses and executes: after the sleep and the allocation\<close>
  "after_make s = snd (make_bytes size_c (time_Sleep (Second * 10) s))"

fun is_write :: "event \<Rightarrow> bool" where
  "is_write (Write p e) = True"
| "is_write ev = False"

fun ok_write :: "event \<Rightarrow> bool" where
  "ok_write (Write p None) = True"
| "ok_write ev = False"

section \<open>The server: routes and listen address (server.go, main)\<close>

text \<open>
  The response writer that net/http hands to a handler, as far as the body goes: a write
  of no bytes returns at once, the body of the answer to a HEAD request is discarded
  (the write reports success and nothing reaches the connection), and any other write goes
  to the connection \<open>cw\<close>.
\<close>

definition response_Write :: "request \<Rightarrow> 'w writer \<Rightarrow> 'w writer" where
  "response_Write r cw c p =
     (if p = [] then (c, None)
      else if Method r = ''HEAD'' then (c, None)
      else cw c p)"

text \<open>
  A \<^verbatim>\<open>ServeMux\<close> is its list of registered patterns with their handlers.
  \<^verbatim>\<open>mux.HandleFunc(pattern, h)\<close> registers one more. The patterns are paths; a
  pattern carries no HTTP method. \<^verbatim>\<open>match\<close> looks a path up: a pattern equal to
  the path wins; otherwise the longest pattern that ends in a slash and is a prefix of the
  path.
\<close>

definition NewServeMux :: "(string \<times> 'h) list" where
  "NewServeMux = []"

definition HandleFunc :: "string \<Rightarrow> 'h \<Rightarrow> (string \<times> 'h) list \<Rightarrow> (string \<times> 'h) list" where
  "HandleFunc pattern h m = m @ [(pattern, h)]"

definition is_subtree :: "string \<Rightarrow> bool" where
  "is_subtree pattern = (case rev pattern of [] \<Rightarrow> False | c # cs \<Rightarrow> c = CHR ''/'')"

definition longest :: "(string \<times> 'h) \<Rightarrow> (string \<times> 'h) list \<Rightarrow> (string \<times> 'h)" where
  "longest e es = foldl (\<lambda>a b. if length (fst a) < length (fst b) then b else a) e es"

definition mux_match :: "(string \<times> 'h) list \<Rightarrow> string \<Rightarrow> (string \<times> 'h) option" where
  "mux_match m path =
     (case find (\<lambda>e. fst e = path) m of
        Some e \<Rightarrow> Some e
      | None \<Rightarrow>
          (case filter (\<lambda>e. is_subtree (fst e) \<and> prefix (fst e) path) m of
             [] \<Rightarrow> None
           | e # es \<Rightarrow> Some (longest e es)))"

text \<open>
  \<^verbatim>\<open>path.Clean\<close>: the elements of a path between slashes, with empty elements and
  \<^verbatim>\<open>.\<close> dropped and \<^verbatim>\<open>..\<close> removing the element before it (at the root of a
  rooted path it is dropped; in a path that is not rooted it stays when there is nothing to
  remove).
\<close>

fun split_slash :: "string \<Rightarrow> string list" where
  "split_slash [] = [[]]"
| "split_slash (c # cs) =
     (if c = CHR ''/'' then [] # split_slash cs
      else (case split_slash cs of
              [] \<Rightarrow> [[c]]
            | e # es \<Rightarrow> (c # e) # es))"

fun join_slash :: "string list \<Rightarrow> string" where
  "join_slash [] = []"
| "join_slash [e] = e"
| "join_slash (e # es) = e @ CHR ''/'' # join_slash es"

fun clean_elems :: "bool \<Rightarrow> string list \<Rightarrow> string list \<Rightarrow> string list" where
  "clean_elems rooted [] out = rev out"
| "clean_elems rooted (e # es) out =
     (if e = [] \<or> e = ''.'' then clean_elems rooted es out
      else if e = ''..'' then
        (case out of
           [] \<Rightarrow> clean_elems rooted es (if rooted then [] else [''..''])
         | x # xs \<Rightarrow>
             if x = ''..'' then clean_elems rooted es (''..'' # out)
             else clean_elems rooted es xs)
      else clean_elems rooted es (e # out))"

definition path_Clean :: "string \<Rightarrow> string" where
  "path_Clean p =
     (case p of
        [] \<Rightarrow> ''.''
      | c # cs \<Rightarrow>
          (let rooted = (c = CHR ''/'');
               np = join_slash (clean_elems rooted (split_slash p) [])
           in if rooted then CHR ''/'' # np
              else if np = [] then ''.''
              else np))"

text \<open>
  \<^verbatim>\<open>cleanPath\<close> of net/http: the canonical form of a request path. It is rooted,
  and keeps the trailing slash that \<^verbatim>\<open>path.Clean\<close> removes.
\<close>

definition cleanPath :: "string \<Rightarrow> string" where
  "cleanPath p0 =
     (case p0 of
        [] \<Rightarrow> ''/''
      | c # cs \<Rightarrow>
          (let p = (if c \<noteq> CHR ''/'' then CHR ''/'' # p0 else p0);
               np = path_Clean p
           in if last p = CHR ''/'' \<and> np \<noteq> ''/''
              then (if length p = length np + 1 \<and> prefix np p then p else np @ ''/'')
              else np))"

text \<open>
  The redirect from \<^verbatim>\<open>/tree\<close> to \<^verbatim>\<open>/tree/\<close>: it applies when the path is not
  registered itself and the path with a slash added is.
\<close>

definition shouldRedirect :: "(string \<times> 'h) list \<Rightarrow> string \<Rightarrow> bool" where
  "shouldRedirect m path =
     (if path \<in> set (map fst m) then False
      else if path = [] then False
      else if (path @ ''/'') \<in> set (map fst m) then last path \<noteq> CHR ''/''
      else False)"

text \<open>
  What \<^verbatim>\<open>mux.Handler(r)\<close> finds for a request: a registered handler with its
  pattern, the redirect handler to another path, or the not-found handler. The path of
  every request but a CONNECT request is cleaned first, and a request whose path is not
  clean is answered by a redirect to the clean path: the registered handler does not run.
\<close>

datatype 'h found = Registered string 'h | RedirectHandler string | NotFoundHandler

definition mux_handler :: "(string \<times> 'h) list \<Rightarrow> string \<Rightarrow> 'h found" where
  "mux_handler m path =
     (case mux_match m path of
        Some (pattern, h) \<Rightarrow> Registered pattern h
      | None \<Rightarrow> NotFoundHandler)"

definition mux_Handler :: "(string \<times> 'h) list \<Rightarrow> request \<Rightarrow> 'h found" where
  "mux_Handler m r =
     (if Method r = ''CONNECT'' then
        (if shouldRedirect m (URLPath r) then RedirectHandler (URLPath r @ ''/'')
         else mux_handler m (URLPath r))
      else
        (let path = cleanPath (URLPath r)
         in if shouldRedirect m path then RedirectHandler (path @ ''/'')
            else if path \<noteq> URLPath r then RedirectHandler path
            else mux_handler m (URLPath r)))"

text \<open>
  The answers that net/http gives by itself, without a registered handler. What they write
  is a parameter \<open>std\<close> of \<^verbatim>\<open>ServeHTTP\<close>.
\<close>

datatype reply = StatusBadRequest | StatusMovedPermanently string | StatusNotFound

definition ServeHTTP ::
  "(string \<times> (request \<Rightarrow> 'w state \<Rightarrow> 'w state)) list
     \<Rightarrow> (reply \<Rightarrow> request \<Rightarrow> 'w state \<Rightarrow> 'w state)
     \<Rightarrow> request \<Rightarrow> 'w state \<Rightarrow> 'w state" where
  "ServeHTTP m std r s =
     (if URLPath r = ''*'' then std StatusBadRequest r s
      else (case mux_Handler m r of
              Registered pattern h \<Rightarrow> h r s
            | RedirectHandler u \<Rightarrow> std (StatusMovedPermanently u) r s
            | NotFoundHandler \<Rightarrow> std StatusNotFound r s))"

record 'h server =
  ReadTimeout :: int
  WriteTimeout :: int
  Addr :: string
  Handler :: "(string \<times> 'h) list"

definition main_mux ::
  "(bytes \<Rightarrow> error + 'a node list) \<Rightarrow> ('a \<Rightarrow> error + bytes) \<Rightarrow> 'w writer
     \<Rightarrow> (string \<times> (request \<Rightarrow> 'w state \<Rightarrow> 'w state)) list" where
  "main_mux act eval wr = HandleFunc ''/'' (handler act eval wr) NewServeMux"

text \<open>
  The server value that \<^verbatim>\<open>main\<close> builds. \<open>args\<close> are the command-line arguments
  of the process; \<^verbatim>\<open>main\<close> never reads them.
\<close>

definition main_srv ::
  "string list \<Rightarrow> (bytes \<Rightarrow> error + 'a node list) \<Rightarrow> ('a \<Rightarrow> error + bytes) \<Rightarrow> 'w writer
     \<Rightarrow> (request \<Rightarrow> 'w state \<Rightarrow> 'w state) server" where
  "main_srv args act eval wr =
     \<lparr>ReadTimeout = 10 * Minute,
      WriteTimeout = 10 * Minute,
      Addr = '':8080'',
      Handler = main_mux act eval wr\<rparr>"

text \<open>The container's entry point: \<^verbatim>\<open>ENTRYPOINT /go/bin/web-app --port 8080\<close>.\<close>

definition entrypoint_args :: "string list" where
  "entrypoint_args = [''--port'', ''8080'']"

text \<open>Decimal numbers, and the port of a listen address \<^verbatim>\<open>host:port\<close>.\<close>

definition is_digit :: "char \<Rightarrow> bool" where
  "is_digit c = (c \<in> set ''0123456789'')"

definition decimal :: "string \<Rightarrow> nat option" where
  "decimal ds =
     (if ds \<noteq> [] \<and> list_all is_digit ds
      then Some (foldl (\<lambda>n c. 10 * n + (of_char c - 48)) 0 ds)
      else None)"

definition listen_port :: "string \<Rightarrow> nat option" where
  "listen_port addr =
     (if CHR '':'' \<in> set addr
      then decimal (rev (takeWhile (\<lambda>c. c \<noteq> CHR '':'') (rev addr)))
      else None)"

section \<open>The reverse proxy (nginx.conf)\<close>

text \<open>
  The configuration file as a tree of directives: a name, its arguments and, for a block
  directive, the directives inside the braces.
\<close>

datatype directive = Directive (dname: string) (dargs: "string list") (dblock: "directive list")

definition nginx_conf :: "directive list" where
  "nginx_conf =
     [Directive ''events'' [] [Directive ''worker_connections'' [''1024''] []],
      Directive ''http'' []
        [Directive ''server_tokens'' [''off''] [],
         Directive ''server'' []
           [Directive ''listen'' [''80''] [],
            Directive ''location'' [''/'']
              [Directive ''proxy_set_header'' [''X-Forwarded-For'', ''$remote_addr''] [],
               Directive ''proxy_set_header'' [''Host'', ''$http_host''] [],
               Directive ''proxy_read_timeout'' [''2s''] [],
               Directive ''proxy_connect_timeout'' [''2s''] [],
               Directive ''proxy_send_timeout'' [''2s''] [],
               Directive ''proxy_pass'' [''http://goservice:8080/''] []]]]]"

definition block :: "string \<Rightarrow> string list \<Rightarrow> directive list \<Rightarrow> directive list" where
  "block name args ds =
     (case filter (\<lambda>d. dname d = name \<and> dargs d = args) ds of
        [] \<Rightarrow> []
      | d # _ \<Rightarrow> dblock d)"

definition directives :: "string \<Rightarrow> directive list \<Rightarrow> string list list" where
  "directives name ds = map dargs (filter (\<lambda>d. dname d = name) ds)"

definition location_root :: "directive list" where
  "location_root = block ''location'' [''/''] (block ''server'' [] (block ''http'' [] nginx_conf))"

text \<open>The client side of a proxied request, as far as the variables of the file read it.\<close>

record client =
  remote_addr :: string
  http_host :: string

definition nginx_value :: "client \<Rightarrow> string \<Rightarrow> string" where
  "nginx_value c v =
     (if v = ''$remote_addr'' then remote_addr c
      else if v = ''$http_host'' then http_host c
      else v)"

fun set_header :: "client \<Rightarrow> string list \<Rightarrow> (string \<times> string) list" where
  "set_header c [field, v] = [(field, nginx_value c v)]"
| "set_header c args = []"

definition upstream_headers :: "directive list \<Rightarrow> client \<Rightarrow> (string \<times> string) list" where
  "upstream_headers loc c = concat (map (set_header c) (directives ''proxy_set_header'' loc))"

text \<open>A time value of the configuration, in milliseconds; no unit means seconds.\<close>

definition parse_time :: "string \<Rightarrow> nat option" where
  "parse_time t =
     (let ds = takeWhile is_digit t; u = dropWhile is_digit t
      in case decimal ds of
           None \<Rightarrow> None
         | Some n \<Rightarrow>
             (if u = ''ms'' then Some n
              else if u = ''s'' \<or> u = [] then Some (1000 * n)
              else if u = ''m'' then Some (60 * 1000 * n)
              else if u = ''h'' then Some (60 * 60 * 1000 * n)
              else if u = ''d'' then Some (24 * 60 * 60 * 1000 * n)
              else None))"

definition timeout_ms :: "string \<Rightarrow> directive list \<Rightarrow> nat option" where
  "timeout_ms name loc =
     (case directives name loc of
        [[t]] \<Rightarrow> parse_time t
      | _ \<Rightarrow> None)"

section \<open>Sample inputs\<close>

text \<open>
  A connection whose peer reads everything (its state is the bytes received), one whose
  peer has closed it, a template package that rejects every action, some requests, and
  standard answers that write nothing.
\<close>

definition open_conn :: "bytes writer" where
  "open_conn c p = (c @ p, None)"

definition closed_conn :: "bytes writer" where
  "closed_conn c p = (c, Some ''write tcp 172.18.0.2:8080->172.18.0.3:56768: write: broken pipe'')"

definition no_actions :: "bytes \<Rightarrow> error + unit node list" where
  "no_actions text = Inl ''template: page:1: unexpected action''"

definition bad_parse :: "bytes \<Rightarrow> error + unit node list" where
  "bad_parse text = Inl ''template: page:1: unexpected EOF''"

definition no_eval :: "unit \<Rightarrow> error + bytes" where
  "no_eval a = Inl ''template: page:1: nil data''"

definition get_root :: request where
  "get_root = \<lparr>Method = ''GET'', URLPath = ''/'', Body = []\<rparr>"

definition post_upload :: request where
  "post_upload = \<lparr>Method = ''POST'', URLPath = ''/upload'', Body = [1, 2, 3]\<rparr>"

definition head_root :: request where
  "head_root = \<lparr>Method = ''HEAD'', URLPath = ''/'', Body = []\<rparr>"

definition unclean_upload :: request where
  "unclean_upload = \<lparr>Method = ''GET'', URLPath = ''//upload'', Body = []\<rparr>"

definition silent :: "reply \<Rightarrow> request \<Rightarrow> bytes state \<Rightarrow> bytes state" where
  "silent rep r s = s"

definition start :: "bytes state" where
  "start = \<lparr>conn = [], trace = []\<rparr>"

section \<open>Properties of the library model\<close>

lemma Index_zeros: "Index (replicate n 0) leftDelim = None"
  by (induction n) (simp_all add: leftDelim_def)

lemma Parse_zeros:
  "Parse act (replicate n 0) = Inr (if n = 0 then [] else [TextNode (replicate n 0)])"
  by (simp add: Parse_def Index_zeros)

lemma size_c_value: "size_c = 900000000"
  by (simp add: size_c_def)

lemma handler_trace:
  "trace (handler act eval wr r s) =
     trace s @ [Sleep 10000000000, Make 900000000,
                Write (replicate 900000000 0) (snd (wr (conn s) (replicate 900000000 0)))]
       @ (case snd (wr (conn s) (replicate 900000000 0)) of
            None \<Rightarrow> []
          | Some err \<Rightarrow> [Printf (''error writing: '' @ err)])"
  by (simp add: handler_def handler_with_def Parse_zeros size_c_value time_Sleep_def
      make_bytes_def Execute_def rw_Write_def log_Printf_def Second_def
      split: prod.splits option.splits)

section \<open>Properties of the handler\<close>

lemma rw_Write_trace: "trace (fst (rw_Write wr p s)) = trace s @ [Write p (snd (rw_Write wr p s))]"
  by (simp add: rw_Write_def split: prod.splits)

lemma walk_trace:
  "\<exists>ws. trace (fst (walk eval wr t s)) = trace s @ ws \<and> list_all is_write ws
        \<and> list_all ok_write (butlast ws)
        \<and> (snd (walk eval wr t s) = None \<longrightarrow> list_all ok_write ws)"
proof (induction eval wr t s rule: walk.induct)
  case (1 eval wr s)
  then show ?case by simp
next
  case (2 eval wr t ns s)
  obtain s' e where r: "rw_Write wr t s = (s', e)" by (cases "rw_Write wr t s")
  have tr: "trace s' = trace s @ [Write t e]" using rw_Write_trace[of wr t s] r by simp
  show ?case
  proof (cases e)
    case None
    from 2[OF r[symmetric]] None obtain ws where
      ws: "trace (fst (walk eval wr ns s')) = trace s' @ ws" "list_all is_write ws"
          "list_all ok_write (butlast ws)"
          "snd (walk eval wr ns s') = None \<longrightarrow> list_all ok_write ws"
      by auto
    have a: "trace (fst (walk eval wr (TextNode t # ns) s)) = trace s @ (Write t None # ws)"
      using ws(1) r None tr by simp
    have b: "list_all is_write (Write t None # ws)" using ws(2) by simp
    have c: "list_all ok_write (butlast (Write t None # ws))" using ws(3) by simp
    have d: "snd (walk eval wr (TextNode t # ns) s) = None \<longrightarrow> list_all ok_write (Write t None # ws)"
      using ws(4) r None by simp
    show ?thesis
      by (rule exI[of _ "Write t None # ws"], intro conjI) (rule a, rule b, rule c, rule d)
  next
    case (Some err)
    have "trace (fst (walk eval wr (TextNode t # ns) s)) = trace s @ [Write t (Some err)]"
      using r Some tr by simp
    moreover have "snd (walk eval wr (TextNode t # ns) s) \<noteq> None" using r Some by simp
    ultimately show ?thesis by (intro exI[of _ "[Write t (Some err)]"]) simp
  qed
next
  case (3 eval wr a ns s)
  show ?case
  proof (cases "eval a")
    case (Inl err)
    then show ?thesis by simp
  next
    case (Inr out)
    obtain s' e where r: "rw_Write wr out s = (s', e)" by (cases "rw_Write wr out s")
    have tr: "trace s' = trace s @ [Write out e]" using rw_Write_trace[of wr out s] r by simp
    show ?thesis
    proof (cases e)
      case None
      from 3[OF Inr r[symmetric]] None obtain ws where
        ws: "trace (fst (walk eval wr ns s')) = trace s' @ ws" "list_all is_write ws"
            "list_all ok_write (butlast ws)"
            "snd (walk eval wr ns s') = None \<longrightarrow> list_all ok_write ws"
        by auto
    have a: "trace (fst (walk eval wr (ActionNode a # ns) s)) = trace s @ (Write out None # ws)"
        using ws(1) r None tr Inr by simp
      have b: "list_all is_write (Write out None # ws)" using ws(2) by simp
      have c: "list_all ok_write (butlast (Write out None # ws))" using ws(3) by simp
      have d: "snd (walk eval wr (ActionNode a # ns) s) = None \<longrightarrow> list_all ok_write (Write out None # ws)"
        using ws(4) r None Inr by simp
      show ?thesis
      by (rule exI[of _ "Write out None # ws"], intro conjI) (rule a, rule b, rule c, rule d)
    next
      case (Some err)
      have "trace (fst (walk eval wr (ActionNode a # ns) s)) = trace s @ [Write out (Some err)]"
        using r Some tr Inr by simp
      moreover have "snd (walk eval wr (ActionNode a # ns) s) \<noteq> None" using r Some Inr by simp
      ultimately show ?thesis by (intro exI[of _ "[Write out (Some err)]"]) simp
    qed
  qed
qed


lemma size_c_pos: "size_c \<noteq> 0"
  by (simp add: size_c_def)

lemma after_make_trace: "trace (after_make s) = trace s @ [Sleep (Second * 10), Make size_c]"
  by (simp add: after_make_def make_bytes_def time_Sleep_def)

lemma after_make_conn: "conn (after_make s) = conn s"
  by (simp add: after_make_def make_bytes_def time_Sleep_def)

lemma handler_with_unfold:
  "handler_with parse eval wr r s =
     (case parse (replicate size_c 0) of
        Inl err \<Rightarrow> log_Printf (''error parsing template: '' @ err) (after_make s)
      | Inr t \<Rightarrow>
          (case snd (Execute eval wr t (after_make s)) of
             Some err \<Rightarrow> log_Printf (''error writing: '' @ err) (fst (Execute eval wr t (after_make s)))
           | None \<Rightarrow> fst (Execute eval wr t (after_make s))))"
  by (simp add: handler_with_def after_make_def make_bytes_def Let_def
      split: sum.splits prod.splits option.splits)

lemma Execute_trace:
  "\<exists>ws. trace (fst (Execute eval wr t (after_make s))) =
           trace s @ [Sleep (Second * 10), Make size_c] @ ws
        \<and> list_all is_write ws \<and> list_all ok_write (butlast ws)
        \<and> (snd (Execute eval wr t (after_make s)) = None \<longrightarrow> list_all ok_write ws)"
  using walk_trace[of eval wr t "after_make s"]
  by (simp add: Execute_def after_make_trace)

lemma log_lines_append: "log_lines (xs @ ys) = log_lines xs @ log_lines ys"
  by (induction xs rule: log_lines.induct) simp_all

lemma log_lines_writes: "list_all is_write ws \<Longrightarrow> log_lines ws = []"
  by (induction ws rule: log_lines.induct) simp_all

lemma effects_parse_error:
  assumes "parse (replicate size_c 0) = Inl err"
  shows "effects (handler_with parse eval wr r) s =
           [Sleep (Second * 10), Make size_c, Printf (''error parsing template: '' @ err)]"
    and "conn (handler_with parse eval wr r s) = conn s"
  using assms
  by (simp_all add: effects_def handler_with_unfold log_Printf_def after_make_trace after_make_conn)

lemma effects_write_error:
  assumes "parse (replicate size_c 0) = Inr t"
    and "snd (Execute eval wr t (after_make s)) = Some err"
  shows "\<exists>ws. effects (handler_with parse eval wr r) s =
                [Sleep (Second * 10), Make size_c] @ ws @ [Printf (''error writing: '' @ err)]
              \<and> list_all is_write ws \<and> list_all ok_write (butlast ws)"
    and "conn (handler_with parse eval wr r s) = conn (fst (Execute eval wr t (after_make s)))"
proof -
  obtain ws where ws:
    "trace (fst (Execute eval wr t (after_make s))) = trace s @ [Sleep (Second * 10), Make size_c] @ ws"
    "list_all is_write ws" "list_all ok_write (butlast ws)"
    using Execute_trace[of eval wr t s] by blast
  have "effects (handler_with parse eval wr r) s =
          [Sleep (Second * 10), Make size_c] @ ws @ [Printf (''error writing: '' @ err)]"
    using assms ws(1) by (simp add: effects_def handler_with_unfold log_Printf_def)
  then show "\<exists>ws. effects (handler_with parse eval wr r) s =
                [Sleep (Second * 10), Make size_c] @ ws @ [Printf (''error writing: '' @ err)]
              \<and> list_all is_write ws \<and> list_all ok_write (butlast ws)"
    using ws(2,3) by blast
  show "conn (handler_with parse eval wr r s) = conn (fst (Execute eval wr t (after_make s)))"
    using assms by (simp add: handler_with_unfold log_Printf_def)
qed

lemma effects_success:
  assumes "parse (replicate size_c 0) = Inr t"
    and "snd (Execute eval wr t (after_make s)) = None"
  shows "\<exists>ws. effects (handler_with parse eval wr r) s = [Sleep (Second * 10), Make size_c] @ ws
              \<and> list_all ok_write ws"
    and "handler_with parse eval wr r s = fst (Execute eval wr t (after_make s))"
proof -
  obtain ws where ws:
    "trace (fst (Execute eval wr t (after_make s))) = trace s @ [Sleep (Second * 10), Make size_c] @ ws"
    "list_all ok_write ws"
    using Execute_trace[of eval wr t s] assms(2) by blast
  have "effects (handler_with parse eval wr r) s = [Sleep (Second * 10), Make size_c] @ ws"
    using assms ws(1) by (simp add: effects_def handler_with_unfold)
  then show "\<exists>ws. effects (handler_with parse eval wr r) s = [Sleep (Second * 10), Make size_c] @ ws
              \<and> list_all ok_write ws"
    using ws(2) by blast
  show "handler_with parse eval wr r s = fst (Execute eval wr t (after_make s))"
    using assms by (simp add: handler_with_unfold)
qed

lemma ok_write_is_write: "list_all ok_write ws \<Longrightarrow> list_all is_write ws"
  by (induction ws rule: log_lines.induct) simp_all

text \<open>
  C4. The handler has two failure paths and both end the request. When parsing fails,
  the handler sleeps, allocates, logs the parse error and returns: nothing is written to
  the response. When executing the template fails, the error is logged as the last step
  and the handler returns with the connection as the failed execution left it: every
  write before the last one had succeeded, and no write follows the failure (no retry,
  no recovery, no error sent to the client). When neither fails, nothing is logged.
\<close>

theorem handler_failure_paths:
  "(parse (replicate size_c 0) = Inl err \<longrightarrow>
      effects (handler_with parse eval wr r) s =
        [Sleep (Second * 10), Make size_c, Printf (''error parsing template: '' @ err)]
      \<and> conn (handler_with parse eval wr r s) = conn s)
   \<and> (parse (replicate size_c 0) = Inr t \<and> snd (Execute eval wr t (after_make s)) = Some err \<longrightarrow>
      (\<exists>ws. effects (handler_with parse eval wr r) s =
               [Sleep (Second * 10), Make size_c] @ ws @ [Printf (''error writing: '' @ err)]
            \<and> list_all is_write ws \<and> list_all ok_write (butlast ws))
      \<and> conn (handler_with parse eval wr r s) = conn (fst (Execute eval wr t (after_make s))))
   \<and> (parse (replicate size_c 0) = Inr t \<and> snd (Execute eval wr t (after_make s)) = None \<longrightarrow>
      (\<exists>ws. effects (handler_with parse eval wr r) s = [Sleep (Second * 10), Make size_c] @ ws
            \<and> list_all ok_write ws)
      \<and> handler_with parse eval wr r s = fst (Execute eval wr t (after_make s)))"
  using effects_parse_error[of parse err eval wr r s]
    effects_write_error[of parse t eval wr s err r]
    effects_success[of parse t eval wr s r]
  by blast

text \<open>
  C2, as amended. For every request the handler logs at most one line: exactly one line
  when parsing fails (the parse error), exactly one line when executing the template
  fails (the write error), and no line at all when the request succeeds.
\<close>

theorem handler_log_lines:
  "log_lines (effects (handler_with parse eval wr r) s) =
     (case parse (replicate size_c 0) of
        Inl err \<Rightarrow> [''error parsing template: '' @ err]
      | Inr t \<Rightarrow>
          (case snd (Execute eval wr t (after_make s)) of
             Some err \<Rightarrow> [''error writing: '' @ err]
           | None \<Rightarrow> []))
   \<and> length (log_lines (effects (handler_with parse eval wr r) s)) \<le> 1"
proof -
  have eq: "log_lines (effects (handler_with parse eval wr r) s) =
     (case parse (replicate size_c 0) of
        Inl err \<Rightarrow> [''error parsing template: '' @ err]
      | Inr t \<Rightarrow>
          (case snd (Execute eval wr t (after_make s)) of
             Some err \<Rightarrow> [''error writing: '' @ err]
           | None \<Rightarrow> []))"
  proof (cases "parse (replicate size_c 0)")
    case (Inl err)
    then show ?thesis using effects_parse_error(1)[of parse, OF Inl, of eval wr r s] by simp
  next
    case (Inr t)
    show ?thesis
    proof (cases "snd (Execute eval wr t (after_make s))")
      case None
      obtain ws where "effects (handler_with parse eval wr r) s = [Sleep (Second * 10), Make size_c] @ ws"
        "list_all ok_write ws"
        using effects_success(1)[of parse, OF Inr None, of r] by blast
      then show ?thesis using Inr None
        by (simp add: log_lines_writes ok_write_is_write)
    next
      case (Some err)
      obtain ws where "effects (handler_with parse eval wr r) s =
          [Sleep (Second * 10), Make size_c] @ ws @ [Printf (''error writing: '' @ err)]"
        "list_all is_write ws"
        using effects_write_error(1)[of parse, OF Inr Some, of r] by blast
      then show ?thesis using Inr Some
        by (simp add: log_lines_append log_lines_writes)
    qed
  qed
  show ?thesis
    by (simp only: eq) (simp split: sum.splits option.splits)
qed


lemma handler_effects:
  "effects (handler act eval wr r) s =
     [Sleep (Second * 10), Make size_c,
      Write (replicate size_c 0) (snd (wr (conn s) (replicate size_c 0)))]
       @ (case snd (wr (conn s) (replicate size_c 0)) of
            None \<Rightarrow> []
          | Some err \<Rightarrow> [Printf (''error writing: '' @ err)])"
  by (simp add: effects_def handler_trace size_c_value Second_def)

lemma open_conn_snd: "snd (open_conn c p) = None"
  by (simp add: open_conn_def)

lemma closed_conn_snd:
  "snd (closed_conn c p) = Some ''write tcp 172.18.0.2:8080->172.18.0.3:56768: write: broken pipe''"
  by (simp add: closed_conn_def)

lemma Execute_text:
  "Execute eval wr [TextNode p] s =
     (\<lparr>conn = fst (wr (conn s) p), trace = trace s @ [Write p (snd (wr (conn s) p))]\<rparr>,
      snd (wr (conn s) p))"
  by (simp add: Execute_def rw_Write_def split: prod.splits option.splits)

text \<open>
  C4, at concrete inputs: a parser that fails, a connection closed by the peer, and a
  connection that accepts everything.
\<close>

theorem handler_failure_paths_witness:
  "(bad_parse (replicate size_c 0) = Inl ''template: page:1: unexpected EOF''
    \<and> effects (handler_with bad_parse no_eval open_conn get_root) start =
        [Sleep (Second * 10), Make size_c,
         Printf (''error parsing template: '' @ ''template: page:1: unexpected EOF'')]
    \<and> conn (handler_with bad_parse no_eval open_conn get_root start) = conn start)
   \<and> (Parse no_actions (replicate size_c 0) = Inr [TextNode (replicate size_c 0)]
      \<and> snd (Execute no_eval closed_conn [TextNode (replicate size_c 0)] (after_make start)) =
          Some ''write tcp 172.18.0.2:8080->172.18.0.3:56768: write: broken pipe''
      \<and> conn (handler_with (Parse no_actions) no_eval closed_conn get_root start) = [])
   \<and> (Parse no_actions (replicate size_c 0) = Inr [TextNode (replicate size_c 0)]
      \<and> snd (Execute no_eval open_conn [TextNode (replicate size_c 0)] (after_make start)) = None
      \<and> conn (handler_with (Parse no_actions) no_eval open_conn get_root start) =
          replicate size_c 0)"
proof -
  have p: "Parse no_actions (replicate size_c 0) = Inr [TextNode (replicate size_c 0)]"
    by (simp add: Parse_zeros size_c_pos)
  have h1: "bad_parse (replicate size_c 0) = Inl ''template: page:1: unexpected EOF''"
    by (simp add: bad_parse_def)
  have h2: "snd (Execute no_eval closed_conn [TextNode (replicate size_c 0)] (after_make start)) =
          Some ''write tcp 172.18.0.2:8080->172.18.0.3:56768: write: broken pipe''"
    by (simp add: Execute_text closed_conn_snd)
  have h3: "snd (Execute no_eval open_conn [TextNode (replicate size_c 0)] (after_make start)) = None"
    by (simp add: Execute_text open_conn_snd)
  have c2: "conn (fst (Execute no_eval closed_conn [TextNode (replicate size_c 0)] (after_make start))) = []"
    by (simp add: Execute_text closed_conn_def after_make_conn start_def)
  have c3: "conn (fst (Execute no_eval open_conn [TextNode (replicate size_c 0)] (after_make start))) = replicate size_c 0"
    by (simp add: Execute_text open_conn_def after_make_conn start_def)
  show ?thesis
    using handler_failure_paths[where parse = bad_parse
        and err = "''template: page:1: unexpected EOF''" and eval = no_eval
        and wr = open_conn and r = get_root and s = start]
      handler_failure_paths[where parse = "Parse no_actions" and eval = no_eval
        and wr = closed_conn and r = get_root and s = start
        and t = "[TextNode (replicate size_c 0)]"
        and err = "''write tcp 172.18.0.2:8080->172.18.0.3:56768: write: broken pipe''"]
      handler_failure_paths[where parse = "Parse no_actions" and eval = no_eval
        and wr = open_conn and r = get_root and s = start
        and t = "[TextNode (replicate size_c 0)]"]
      p h1 h2 h3 c2 c3
    by simp
qed

text \<open>
  C2, as stated, fails: a request answered through a connection that accepts every byte
  leaves no log line, so a successful request logs zero terminal outcomes.
\<close>

theorem handler_logs_nothing_on_success:
  "length (log_lines (effects (handler no_actions no_eval open_conn get_root) start)) = 0"
  by (simp add: handler_effects open_conn_snd)


lemma log_lines_handler:
  "log_lines (effects (handler act eval wr r) s) =
     (case snd (wr (conn s) (replicate size_c 0)) of
        None \<Rightarrow> []
      | Some err \<Rightarrow> [''error writing: '' @ err])"
  by (simp add: handler_effects split: option.splits)

lemma success_write:
  "log_lines (effects (handler act eval wr r) s) = [] \<Longrightarrow>
     snd (wr (conn s) (replicate size_c 0)) = None"
  by (simp add: log_lines_handler split: option.splits)

lemma handler_conn:
  "conn (handler act eval wr r s) = fst (wr (conn s) (replicate size_c 0))"
  by (simp add: handler_def handler_with_def Parse_zeros size_c_pos time_Sleep_def
      make_bytes_def Execute_def rw_Write_def log_Printf_def
      split: prod.splits option.splits)

lemma response_Write_payload:
  "response_Write r cw c (replicate size_c 0) =
     (if Method r = ''HEAD'' then (c, None) else cw c (replicate size_c 0))"
  by (simp add: response_Write_def size_c_pos)

text \<open>
  C5, as amended. When a request succeeds (nothing is logged), the handler has made exactly
  one write to the response writer, of the buffer allocated at the fixed size
  900 * 1000 * 1000 = 900,000,000 bytes, unchanged by parsing and executing it. When the
  method of the request is not HEAD, that buffer is what the connection was given, and the
  connection returned no error; when the method is HEAD, the response writer discards the
  buffer and the connection is left as it was.
\<close>

theorem response_size:
  assumes "log_lines (effects (handler act eval (response_Write r cw) r) s) = []"
  shows "writes (effects (handler act eval (response_Write r cw) r) s) =
           [(fst (make_bytes size_c s), None)]
       \<and> length (fst (make_bytes size_c s)) = 900000000
       \<and> size_c = 900 * 1000 * 1000
       \<and> (Method r \<noteq> ''HEAD'' \<longrightarrow>
            cw (conn s) (fst (make_bytes size_c s)) =
              (conn (handler act eval (response_Write r cw) r s), None))
       \<and> (Method r = ''HEAD'' \<longrightarrow>
            conn (handler act eval (response_Write r cw) r s) = conn s)"
proof -
  have ok: "snd (response_Write r cw (conn s) (replicate size_c 0)) = None"
    using success_write[OF assms] .
  have w: "writes (effects (handler act eval (response_Write r cw) r) s) =
             [(fst (make_bytes size_c s), None)]"
    using ok by (simp add: handler_effects make_bytes_def)
  have n: "length (fst (make_bytes size_c s)) = 900000000"
    by (simp add: make_bytes_def size_c_value)
  have c: "conn (handler act eval (response_Write r cw) r s) =
             fst (response_Write r cw (conn s) (replicate size_c 0))"
    by (rule handler_conn)
  have get: "Method r \<noteq> ''HEAD'' \<longrightarrow>
          cw (conn s) (fst (make_bytes size_c s)) =
            (conn (handler act eval (response_Write r cw) r s), None)"
    using ok c by (simp add: response_Write_payload make_bytes_def prod_eq_iff split: if_splits)
  have head: "Method r = ''HEAD'' \<longrightarrow>
          conn (handler act eval (response_Write r cw) r s) = conn s"
    using c by (simp add: response_Write_payload)
  show ?thesis
    using w n get head by (simp add: size_c_def)
qed

text \<open>
  C5, at a connection that accepts everything: after a GET request the connection has
  received the 900,000,000 bytes; after a HEAD request it has received nothing.
\<close>

theorem response_size_witness:
  "(log_lines (effects (handler no_actions no_eval (response_Write get_root open_conn) get_root)
       start) = []
    \<and> Method get_root \<noteq> ''HEAD''
    \<and> length (conn (handler no_actions no_eval (response_Write get_root open_conn) get_root
         start)) = 900000000)
   \<and> (log_lines (effects (handler no_actions no_eval (response_Write head_root open_conn)
         head_root) start) = []
      \<and> Method head_root = ''HEAD''
      \<and> conn (handler no_actions no_eval (response_Write head_root open_conn) head_root start) =
          conn start)"
proof -
  have g: "log_lines (effects (handler no_actions no_eval (response_Write get_root open_conn)
             get_root) start) = []"
    by (simp add: log_lines_handler response_Write_payload open_conn_snd)
  have h: "log_lines (effects (handler no_actions no_eval (response_Write head_root open_conn)
             head_root) start) = []"
    by (simp add: log_lines_handler response_Write_payload open_conn_snd)
  have mg: "Method get_root \<noteq> ''HEAD''"
    by (simp add: get_root_def)
  have mh: "Method head_root = ''HEAD''"
    by (simp add: head_root_def)
  have "open_conn (conn start) (fst (make_bytes size_c start)) =
          (conn (handler no_actions no_eval (response_Write get_root open_conn) get_root start),
           None)"
    using response_size[OF g] mg by blast
  then have "conn (handler no_actions no_eval (response_Write get_root open_conn) get_root
               start) = replicate size_c 0"
    by (simp add: open_conn_def make_bytes_def start_def)
  then have lg: "length (conn (handler no_actions no_eval (response_Write get_root open_conn)
                   get_root start)) = 900000000"
    by (simp add: size_c_value)
  have ch: "conn (handler no_actions no_eval (response_Write head_root open_conn) head_root
              start) = conn start"
    using response_size[OF h] mh by blast
  show ?thesis
    using g h mg mh lg ch by blast
qed

text \<open>
  C5, as stated, fails: a HEAD request over a connection that accepts everything completes
  successfully (nothing is logged), and the connection has received no byte of a body, not
  900,000,000.
\<close>

theorem head_response_empty:
  "log_lines (effects (handler no_actions no_eval (response_Write head_root open_conn)
      head_root) start) = []
   \<and> conn (handler no_actions no_eval (response_Write head_root open_conn) head_root start) = []
   \<and> length (conn (handler no_actions no_eval (response_Write head_root open_conn) head_root
        start)) \<noteq> 900000000"
  by (simp add: log_lines_handler handler_conn response_Write_payload head_root_def start_def)



section \<open>Properties of the server and of the proxy configuration\<close>

lemma cleanPath_root: "cleanPath ''/'' = ''/''"
  by (simp add: cleanPath_def path_Clean_def)

lemma main_mux_patterns: "map fst (main_mux act eval wr) = [''/'']"
  by (simp add: main_mux_def HandleFunc_def NewServeMux_def)

lemma main_mux_no_redirect: "\<not> shouldRedirect (main_mux act eval wr) path"
  by (simp add: shouldRedirect_def main_mux_patterns)

lemma main_mux_handler:
  "mux_handler (main_mux act eval wr) (CHR ''/'' # p) = Registered ''/'' (handler act eval wr)"
  by (simp add: mux_handler_def mux_match_def main_mux_def HandleFunc_def NewServeMux_def
      is_subtree_def longest_def)

lemma mux_Handler_root:
  "mux_Handler (main_mux act eval wr) \<lparr>Method = m, URLPath = ''/'', Body = b\<rparr> =
     Registered ''/'' (handler act eval wr)"
  by (simp add: mux_Handler_def main_mux_no_redirect main_mux_handler cleanPath_root)

lemma handler_ignores_request: "handler act eval wr r s = handler act eval wr r' s"
  by (simp add: handler_def handler_with_def)

lemma ServeHTTP_root:
  "ServeHTTP (main_mux act eval wr) std \<lparr>Method = m, URLPath = ''/'', Body = b\<rparr> s =
     handler act eval wr r s"
  using handler_ignores_request[of act eval wr "\<lparr>Method = m, URLPath = ''/'', Body = b\<rparr>" s r]
  by (simp add: ServeHTTP_def mux_Handler_root)

text \<open>
  A request whose path is not clean is answered by a redirect to the clean path, and the
  handler does not run.
\<close>

lemma cleanPath_unclean: "cleanPath ''//upload'' = ''/upload''"
  by (simp add: cleanPath_def path_Clean_def)

lemma cleanPath_dotdot: "cleanPath ''/a/../b'' = ''/b''"
  by (simp add: cleanPath_def path_Clean_def)

lemma mux_Handler_unclean:
  "mux_Handler (main_mux act eval wr) unclean_upload = RedirectHandler ''/upload''"
  by (simp add: mux_Handler_def main_mux_no_redirect unclean_upload_def cleanPath_unclean)

lemma ServeHTTP_unclean:
  "ServeHTTP (main_mux no_actions no_eval open_conn) silent unclean_upload start = start"
  by (simp add: ServeHTTP_def mux_Handler_unclean silent_def)

text \<open>
  C6, as amended. The backend registers exactly one pattern, the root pattern
  \<^verbatim>\<open>/\<close>, and it carries no HTTP method: a request for the root path is served by
  the handler whatever its method and its body, and what the handler does is the same for
  every request, so it processes neither the method nor the body.
\<close>

theorem root_route_any_method:
  "map fst (main_mux act eval wr) = [''/'']
   \<and> mux_Handler (main_mux act eval wr) \<lparr>Method = m, URLPath = ''/'', Body = b\<rparr> =
       Registered ''/'' (handler act eval wr)
   \<and> ServeHTTP (main_mux act eval wr) std \<lparr>Method = m, URLPath = ''/'', Body = b\<rparr> s =
       handler act eval wr r s"
  using main_mux_patterns[of act eval wr] mux_Handler_root[of act eval wr m b]
    ServeHTTP_root[of act eval wr std m b s r]
  by blast

text \<open>
  C6, as stated, fails: a POST request with a body, for the path \<^verbatim>\<open>/upload\<close>, is
  matched by the root pattern and answered by the handler, which writes the whole payload
  to the connection.
\<close>

theorem root_route_serves_post:
  "Method post_upload = ''POST''
   \<and> mux_Handler (main_mux no_actions no_eval (response_Write post_upload open_conn))
        post_upload =
       Registered ''/'' (handler no_actions no_eval (response_Write post_upload open_conn))
   \<and> length (conn (ServeHTTP
        (main_mux no_actions no_eval (response_Write post_upload open_conn)) silent
        post_upload start)) = 900000000"
proof -
  have c: "cleanPath ''/upload'' = ''/upload''"
    by (simp add: cleanPath_def path_Clean_def)
  have m: "mux_Handler (main_mux no_actions no_eval (response_Write post_upload open_conn))
             post_upload =
           Registered ''/'' (handler no_actions no_eval (response_Write post_upload open_conn))"
    by (simp add: mux_Handler_def main_mux_no_redirect main_mux_handler post_upload_def c)
  have "ServeHTTP (main_mux no_actions no_eval (response_Write post_upload open_conn)) silent
          post_upload start =
        handler no_actions no_eval (response_Write post_upload open_conn) post_upload start"
    by (simp add: ServeHTTP_def m) (simp add: post_upload_def)
  then have "conn (ServeHTTP (main_mux no_actions no_eval (response_Write post_upload open_conn))
               silent post_upload start) = replicate size_c 0"
    by (simp add: handler_conn response_Write_payload open_conn_def start_def)
       (simp add: post_upload_def)
  then show ?thesis
    using m by (simp add: size_c_value) (simp add: post_upload_def)
qed

text \<open>
  C7. In the location block of the proxy configuration, the request passed to the backend
  carries \<^verbatim>\<open>X-Forwarded-For\<close> set to the client's remote address and
  \<^verbatim>\<open>Host\<close> set to the client's Host header, and the connect, read and send
  timeouts are each 2 seconds (2000 milliseconds).
\<close>

theorem proxy_location_settings:
  "upstream_headers location_root c =
     [(''X-Forwarded-For'', remote_addr c), (''Host'', http_host c)]
   \<and> timeout_ms ''proxy_connect_timeout'' location_root = Some 2000
   \<and> timeout_ms ''proxy_read_timeout'' location_root = Some 2000
   \<and> timeout_ms ''proxy_send_timeout'' location_root = Some 2000"
  by (simp add: upstream_headers_def timeout_ms_def directives_def location_root_def block_def
      nginx_conf_def nginx_value_def parse_time_def decimal_def is_digit_def)

text \<open>
  C9. Whatever the command-line arguments, the server's listen address is the constant
  \<^verbatim>\<open>:8080\<close>, whose port is 8080; the server built from the arguments of the
  container's entry point, \<^verbatim>\<open>--port 8080\<close>, is the server built from any other
  arguments.
\<close>

theorem listen_address_fixed:
  "Addr (main_srv args act eval wr) = '':8080''
   \<and> listen_port (Addr (main_srv args act eval wr)) = Some 8080
   \<and> main_srv entrypoint_args act eval wr = main_srv args act eval wr"
  by (simp add: main_srv_def listen_port_def decimal_def is_digit_def)

end
